theory Spec2Isabelle
  imports Main "HOL-Library.Word"
begin

section \<open>The diagnostic bridge of \<^verbatim>\<open>library_messages.c\<close>\<close>

text \<open>
  The file holds one global, \<^verbatim>\<open>rust_log\<close>, three handlers that the sound library
  (ALSA) and the audio server's client library (JACK) call with their diagnostics, and
  \<^verbatim>\<open>set_message_handler\<close>, which stores the host's logging callback and installs
  the three handlers. Every handler ends in one call of \<^verbatim>\<open>rust_log\<close>.
\<close>

subsection \<open>C data\<close>

type_synonym uint8_t = "8 word"
type_synonym c_int = "32 word"

text \<open>
  A \<^verbatim>\<open>const char *\<close> that the code only hands on or reads as a string is the
  \<^typ>\<open>string\<close> of the bytes before its terminator. The local array \<^verbatim>\<open>msg\<close> is
  a list of cells; a cell that was never written is indeterminate (\<open>None\<close>).
\<close>

abbreviation NUL :: char where
  "NUL \<equiv> CHR 0x00"

type_synonym cell = "char option"

text \<open>What can go wrong in C where the model has to stop.\<close>

datatype fault =
  Null_call  \<comment> \<open>a call through a null function pointer\<close>
| Format_fault  \<comment> \<open>the format and its arguments have no rendering\<close>
| Buffer_overflow  \<comment> \<open>a write past the end of an array\<close>
| Bad_read  \<comment> \<open>a string read that meets an indeterminate cell or the end of the array\<close>

text \<open>
  \<^verbatim>\<open>typedef void (*rust_callback)(uint8_t, const char*, const char*)\<close>: a function
  pointer, \<open>None\<close> when null. The functions a host can pass are the type \<open>'cb\<close>.
  The handlers of this file, by the type of the library slot that takes them:
\<close>

datatype alsa_fn = Alsa_error_handler
datatype jack_fn = Jack_info_handler | Jack_error_handler

text \<open>
  What the bridge does to the world outside its own variables, in the order it does it:
  the write of the global, the three installations, and each call of the callback with
  its severity, its source tag and its message.
\<close>

datatype 'cb event =
  Store_rust_log "'cb option"
| Snd_lib_error_set_handler "alsa_fn option"
| Jack_set_info_function "jack_fn option"
| Jack_set_error_function "jack_fn option"
| Rust_log 'cb uint8_t string string

text \<open>
  The process-wide state: the global \<^verbatim>\<open>rust_log\<close> (null until it is assigned, as
  every C object of static storage), the handler slot of the sound library, the two
  slots of the audio server's library (\<open>None\<close>: the library's own default handler), and
  the history of events.
\<close>

record 'cb bridge =
  rust_log :: "'cb option"
  snd_lib_error :: "alsa_fn option"
  jack_info :: "jack_fn option"
  jack_error :: "jack_fn option"
  trace :: "'cb event list"

definition initial :: "'cb bridge" where
  "initial = \<lparr>rust_log = None, snd_lib_error = None, jack_info = None,
     jack_error = None, trace = []\<rparr>"

text \<open>The part of the state that registration is about: the callback and the slots.\<close>

definition registration ::
  "'cb bridge \<Rightarrow> 'cb option \<times> alsa_fn option \<times> jack_fn option \<times> jack_fn option" where
  "registration s = (rust_log s, snd_lib_error s, jack_info s, jack_error s)"

subsection \<open>The C library: strings in arrays and \<^verbatim>\<open>vsnprintf\<close>\<close>

text \<open>Reading the string that starts at the beginning of an array of cells.\<close>

fun c_str :: "cell list \<Rightarrow> fault + string" where
  "c_str [] = Inl Bad_read"
| "c_str (None # cs) = Inl Bad_read"
| "c_str (Some c # cs) =
     (if c = NUL then Inr []
      else (case c_str cs of Inl f \<Rightarrow> Inl f | Inr m \<Rightarrow> Inr (c # m)))"

text \<open>Writing bytes at the beginning of an array; the cells behind them stay as they were.\<close>

definition store_bytes :: "cell list \<Rightarrow> string \<Rightarrow> fault + cell list" where
  "store_bytes buf bs =
     (if length bs \<le> length buf then Inr (map Some bs @ drop (length bs) buf)
      else Inl Buffer_overflow)"

text \<open>
  \<^verbatim>\<open>vsnprintf(s, n, fmt, ap)\<close> as the C standard has it: with \<open>n = 0\<close> nothing is
  written; otherwise the bytes of the rendering beyond the \<open>n - 1\<close>st are discarded and
  a null byte follows the bytes written. It returns the length of the full rendering.
  The rendering of a format with its arguments is the C library's and not this
  repository's: it is the parameter \<open>render\<close>, \<open>None\<close> where the format and the
  arguments have no rendering.
\<close>

definition vsnprintf ::
  "(string \<Rightarrow> 'va \<Rightarrow> string option) \<Rightarrow> cell list \<Rightarrow> nat \<Rightarrow> string \<Rightarrow> 'va
     \<Rightarrow> fault + (cell list \<times> nat)" where
  "vsnprintf render s n fmt ap =
     (case render fmt ap of
        None \<Rightarrow> Inl Format_fault
      | Some r \<Rightarrow>
          if n = 0 then Inr (s, length r)
          else (case store_bytes s (take (n - 1) r @ [NUL]) of
                  Inl f \<Rightarrow> Inl f
                | Inr s' \<Rightarrow> Inr (s', length r)))"

text \<open>
  A fragment of the C library's rendering, to run the handlers on concrete formats:
  ordinary bytes, \<^verbatim>\<open>%%\<close>, \<^verbatim>\<open>%s\<close> and \<^verbatim>\<open>%c\<close>. Any other conversion, and a
  conversion whose argument is missing or of the wrong kind, has no rendering here.
\<close>

datatype va_arg = Arg_str string | Arg_char char

fun printf_render :: "string \<Rightarrow> va_arg list \<Rightarrow> string option" where
  "printf_render [] ap = Some []"
| "printf_render [c] ap = (if c = CHR ''%'' then None else Some [c])"
| "printf_render (c # d # fmt) ap =
     (if c \<noteq> CHR ''%'' then map_option ((#) c) (printf_render (d # fmt) ap)
      else if d = CHR ''%'' then map_option ((#) CHR ''%'') (printf_render fmt ap)
      else if d = CHR ''s'' then
        (case ap of
           Arg_str x # ap' \<Rightarrow> map_option ((@) x) (printf_render fmt ap')
         | _ \<Rightarrow> None)
      else if d = CHR ''c'' then
        (case ap of
           Arg_char x # ap' \<Rightarrow> map_option ((#) x) (printf_render fmt ap')
         | _ \<Rightarrow> None)
      else None)"

subsection \<open>The external libraries' registration functions\<close>

text \<open>
  \<^verbatim>\<open>snd_lib_error_set_handler\<close>, \<^verbatim>\<open>jack_set_info_function\<close> and
  \<^verbatim>\<open>jack_set_error_function\<close> each replace the handler in one slot of their library
  (a null pointer restores the library's default).
\<close>

definition snd_lib_error_set_handler :: "alsa_fn option \<Rightarrow> 'cb bridge \<Rightarrow> 'cb bridge" where
  "snd_lib_error_set_handler h s =
     s\<lparr>snd_lib_error := h, trace := trace s @ [Snd_lib_error_set_handler h]\<rparr>"

definition jack_set_info_function :: "jack_fn option \<Rightarrow> 'cb bridge \<Rightarrow> 'cb bridge" where
  "jack_set_info_function h s =
     s\<lparr>jack_info := h, trace := trace s @ [Jack_set_info_function h]\<rparr>"

definition jack_set_error_function :: "jack_fn option \<Rightarrow> 'cb bridge \<Rightarrow> 'cb bridge" where
  "jack_set_error_function h s =
     s\<lparr>jack_error := h, trace := trace s @ [Jack_set_error_function h]\<rparr>"

subsection \<open>The functions of \<^verbatim>\<open>library_messages.c\<close>\<close>

text \<open>The assignment \<^verbatim>\<open>rust_log = callback\<close>.\<close>

definition store_rust_log :: "'cb option \<Rightarrow> 'cb bridge \<Rightarrow> 'cb bridge" where
  "store_rust_log callback s =
     s\<lparr>rust_log := callback, trace := trace s @ [Store_rust_log callback]\<rparr>"

text \<open>The call \<^verbatim>\<open>rust_log(severity, tag, msg)\<close> through the global pointer.\<close>

definition call_rust_log ::
  "uint8_t \<Rightarrow> string \<Rightarrow> string \<Rightarrow> 'cb bridge \<Rightarrow> fault + 'cb bridge" where
  "call_rust_log severity tag msg s =
     (case rust_log s of
        None \<Rightarrow> Inl Null_call
      | Some cb \<Rightarrow> Inr (s\<lparr>trace := trace s @ [Rust_log cb severity tag msg]\<rparr>))"

text \<open>
  Lines 16 to 22 of \<^verbatim>\<open>alsa_error_handler\<close>: the array \<^verbatim>\<open>char msg[len]\<close> with
  \<^verbatim>\<open>len = 1024\<close>, indeterminate at first, after
  \<^verbatim>\<open>vsnprintf(msg, len - 1, fmt, argptr)\<close>, whose return value is dropped.
\<close>

definition len :: c_int where
  "len = 1024"

definition alsa_msg ::
  "(string \<Rightarrow> 'va \<Rightarrow> string option) \<Rightarrow> string \<Rightarrow> 'va \<Rightarrow> fault + cell list" where
  "alsa_msg render fmt ap =
     (let msg = replicate (unat len) None in
      case vsnprintf render msg (unat (len - 1)) fmt ap of
        Inl f \<Rightarrow> Inl f
      | Inr (msg', _) \<Rightarrow> Inr msg')"

text \<open>
  \<^verbatim>\<open>alsa_error_handler(file, line, function, err, fmt, ...)\<close>: the first four
  parameters are marked unused; the callback reads the array as a string.
\<close>

definition alsa_error_handler ::
  "(string \<Rightarrow> 'va \<Rightarrow> string option) \<Rightarrow> string \<Rightarrow> c_int \<Rightarrow> string \<Rightarrow> c_int \<Rightarrow> string \<Rightarrow> 'va
     \<Rightarrow> 'cb bridge \<Rightarrow> fault + 'cb bridge" where
  "alsa_error_handler render file line function err fmt ap s =
     (case alsa_msg render fmt ap of
        Inl f \<Rightarrow> Inl f
      | Inr msg \<Rightarrow>
          (case c_str msg of
             Inl f \<Rightarrow> Inl f
           | Inr m \<Rightarrow> call_rust_log 3 ''yotredash::alsa'' m s))"

definition jack_info_handler :: "string \<Rightarrow> 'cb bridge \<Rightarrow> fault + 'cb bridge" where
  "jack_info_handler msg s = call_rust_log 2 ''yotredash::jack'' msg s"

definition jack_error_handler :: "string \<Rightarrow> 'cb bridge \<Rightarrow> fault + 'cb bridge" where
  "jack_error_handler msg s = call_rust_log 3 ''yotredash::jack'' msg s"

definition set_message_handler :: "'cb option \<Rightarrow> 'cb bridge \<Rightarrow> 'cb bridge" where
  "set_message_handler callback s =
     (let s = store_rust_log callback s;
          s = snd_lib_error_set_handler (Some Alsa_error_handler) s;
          s = jack_set_info_function (Some Jack_info_handler) s;
          s = jack_set_error_function (Some Jack_error_handler) s
      in s)"

subsection \<open>Runs of the bridge\<close>

text \<open>
  The calls that reach the file from outside, one after the other: the host registers,
  the libraries call the handlers. A fault ends the run.
\<close>

datatype ('cb, 'va) call =
  Set_message_handler "'cb option"
| Alsa_error string c_int string c_int string 'va
| Jack_info string
| Jack_error string

fun step ::
  "(string \<Rightarrow> 'va \<Rightarrow> string option) \<Rightarrow> ('cb, 'va) call \<Rightarrow> 'cb bridge \<Rightarrow> fault + 'cb bridge" where
  "step render (Set_message_handler callback) s = Inr (set_message_handler callback s)"
| "step render (Alsa_error file line function err fmt ap) s =
     alsa_error_handler render file line function err fmt ap s"
| "step render (Jack_info msg) s = jack_info_handler msg s"
| "step render (Jack_error msg) s = jack_error_handler msg s"

fun run ::
  "(string \<Rightarrow> 'va \<Rightarrow> string option) \<Rightarrow> ('cb, 'va) call list \<Rightarrow> 'cb bridge \<Rightarrow> fault + 'cb bridge" where
  "run render [] s = Inr s"
| "run render (c # cs) s =
     (case step render c s of Inl f \<Rightarrow> Inl f | Inr s' \<Rightarrow> run render cs s')"

text \<open>What a reader of a \<^verbatim>\<open>const char *\<close> sees of a sequence of bytes: those before the first null byte.\<close>

definition c_string :: "string \<Rightarrow> string" where
  "c_string bs = takeWhile (\<lambda>c. c \<noteq> NUL) bs"

text \<open>A call that leaves a callback to call: every call but a registration of the null pointer.\<close>

fun passes_callback :: "('cb, 'va) call \<Rightarrow> bool" where
  "passes_callback (Set_message_handler None) = False"
| "passes_callback c = True"

text \<open>
  The severities and source tags that the three handlers write out: an event that is a
  call of the callback carries severity 2 or 3 and one of the two tags.
\<close>

definition forwarded_ok :: "'cb event \<Rightarrow> bool" where
  "forwarded_ok e =
     (case e of
        Rust_log cb severity tag msg \<Rightarrow>
          (severity = 2 \<or> severity = 3) \<and>
          (tag = ''yotredash::alsa'' \<or> tag = ''yotredash::jack'')
      | _ \<Rightarrow> True)"

section \<open>Properties\<close>

subsection \<open>Strings, the array and the formatted message\<close>

lemma c_string_id: "NUL \<notin> set bs \<Longrightarrow> c_string bs = bs"
  by (auto simp: c_string_def)

lemma length_c_string_le: "length (c_string bs) \<le> length bs"
  by (simp add: c_string_def length_takeWhile_le)

lemma c_str_terminated:
  "c_str (map Some bs @ Some NUL # rest) = Inr (c_string bs)"
  by (induction bs) (simp_all add: c_string_def)

lemma unat_len: "unat len = 1024" "unat (len - 1) = 1023"
  by (simp_all add: len_def)

lemma alsa_msg_Some:
  assumes "render fmt ap = Some r"
  shows "alsa_msg render fmt ap =
    Inr (map Some (take 1022 r) @ Some NUL # replicate (1023 - min (length r) 1022) None)"
  using assms
  by (simp add: alsa_msg_def vsnprintf_def store_bytes_def unat_len min_def)

lemma alsa_msg_None:
  "render fmt ap = None \<Longrightarrow> alsa_msg render fmt ap = Inl Format_fault"
  by (simp add: alsa_msg_def vsnprintf_def)

lemma alsa_error_handler_Some:
  assumes "render fmt ap = Some r"
  shows "alsa_error_handler render file line function err fmt ap s =
    call_rust_log 3 ''yotredash::alsa'' (c_string (take 1022 r)) s"
  using assms
  by (simp add: alsa_error_handler_def alsa_msg_Some c_str_terminated)

lemma alsa_error_handler_None:
  "render fmt ap = None \<Longrightarrow>
     alsa_error_handler render file line function err fmt ap s = Inl Format_fault"
  by (simp add: alsa_error_handler_def alsa_msg_None)

lemma call_rust_log_Some:
  "rust_log s = Some cb \<Longrightarrow>
     call_rust_log severity tag msg s =
       Inr (s\<lparr>trace := trace s @ [Rust_log cb severity tag msg]\<rparr>)"
  by (simp add: call_rust_log_def)

lemma call_rust_log_Inr:
  "call_rust_log severity tag msg s = Inr s' \<Longrightarrow>
     \<exists>cb. rust_log s = Some cb \<and> s' = s\<lparr>trace := trace s @ [Rust_log cb severity tag msg]\<rparr>"
  by (auto simp: call_rust_log_def split: option.splits)

lemma printf_render_plain:
  "CHR ''%'' \<notin> set fmt \<Longrightarrow> printf_render fmt ap = Some fmt"
  by (induction fmt ap rule: printf_render.induct) auto

lemma set_message_handler_eq:
  "set_message_handler callback s =
     \<lparr>rust_log = callback, snd_lib_error = Some Alsa_error_handler,
      jack_info = Some Jack_info_handler, jack_error = Some Jack_error_handler,
      trace = trace s @ [Store_rust_log callback,
        Snd_lib_error_set_handler (Some Alsa_error_handler),
        Jack_set_info_function (Some Jack_info_handler),
        Jack_set_error_function (Some Jack_error_handler)]\<rparr>"
  by (simp add: set_message_handler_def store_rust_log_def snd_lib_error_set_handler_def
      jack_set_info_function_def jack_set_error_function_def)

lemma alsa_error_handler_Inr:
  assumes "alsa_error_handler render file line function err fmt ap s = Inr s'"
  shows "\<exists>cb r. render fmt ap = Some r \<and> rust_log s = Some cb \<and>
    s' = s\<lparr>trace := trace s @ [Rust_log cb 3 ''yotredash::alsa'' (c_string (take 1022 r))]\<rparr>"
proof (cases "render fmt ap")
  case None
  with assms show ?thesis by (simp add: alsa_error_handler_None)
next
  case (Some r)
  with assms have "call_rust_log 3 ''yotredash::alsa'' (c_string (take 1022 r)) s = Inr s'"
    by (simp add: alsa_error_handler_Some)
  from call_rust_log_Inr [OF this] Some show ?thesis by blast
qed

lemma alsa_error_handler_faults:
  "alsa_error_handler render file line function err fmt ap s = Inl f \<Longrightarrow>
     f = Format_fault \<or> f = Null_call \<and> rust_log s = None"
  by (cases "render fmt ap")
    (auto simp: alsa_error_handler_None alsa_error_handler_Some call_rust_log_def
      split: option.splits)

lemma written_cells:
  "length (filter (\<lambda>c. c \<noteq> None) (map Some bs @ Some NUL # replicate k None)) =
     Suc (length bs)"
  by (simp add: filter_map comp_def)

lemma scenario_rendering:
  "printf_render ''failed: %s'' [Arg_str ''device busy''] = Some ''failed: device busy''"
  by simp

lemma scenario_alsa:
  "alsa_error_handler printf_render file line function err
       ''failed: %s'' [Arg_str ''device busy''] (set_message_handler (Some ''host_log'') initial) =
     Inr ((set_message_handler (Some ''host_log'') initial)
       \<lparr>trace := trace (set_message_handler (Some ''host_log'') initial) @
          [Rust_log ''host_log'' 3 ''yotredash::alsa'' ''failed: device busy'']\<rparr>)"
  by (simp add: alsa_error_handler_Some
      [of printf_render "''failed: %s''" "[Arg_str ''device busy'']", OF scenario_rendering]
      call_rust_log_def set_message_handler_eq c_string_id)

subsection \<open>Truncation of long messages\<close>

text \<open>
  Claim C1, as the code has it. \<^verbatim>\<open>vsnprintf\<close> is called with the bound
  \<^verbatim>\<open>len - 1 = 1023\<close>, and the bound counts the terminator: whenever the rendering is
  longer than 1022 bytes and the callback is set, the sound-device handler forwards,
  with severity 3 and its tag, the first 1022 bytes of the rendering, as the callback
  reads them from the array. Where these bytes hold no null byte of their own, the
  message is exactly these 1022 bytes. Nothing is written outside the array and no error
  is raised.
\<close>

theorem alsa_long_rendering_truncated_to_1022:
  assumes "render fmt ap = Some r" and "1022 < length r" and "rust_log s = Some cb"
  shows "alsa_error_handler render file line function err fmt ap s =
           Inr (s\<lparr>trace := trace s @
             [Rust_log cb 3 ''yotredash::alsa'' (c_string (take 1022 r))]\<rparr>) \<and>
         (NUL \<notin> set (take 1022 r) \<longrightarrow>
            c_string (take 1022 r) = take 1022 r \<and> length (c_string (take 1022 r)) = 1022)"
  using assms
  by (simp add: alsa_error_handler_Some call_rust_log_Some c_string_id)

text \<open>
  The theorem at the format \<^verbatim>\<open>%s\<close> with an argument of 2000 bytes, after a
  registration of a callback named \<^verbatim>\<open>host_log\<close>.
\<close>

theorem alsa_long_rendering_truncated_to_1022_witness:
  "printf_render ''%s'' [Arg_str (replicate 2000 CHR ''x'')] = Some (replicate 2000 CHR ''x'') \<and>
   1022 < length (replicate 2000 CHR ''x'') \<and>
   rust_log (set_message_handler (Some ''host_log'') initial) = Some ''host_log'' \<and>
   alsa_error_handler printf_render ''pcm.c'' 7 ''snd_pcm_open'' 2
       ''%s'' [Arg_str (replicate 2000 CHR ''x'')] (set_message_handler (Some ''host_log'') initial) =
     Inr ((set_message_handler (Some ''host_log'') initial)
       \<lparr>trace := trace (set_message_handler (Some ''host_log'') initial) @
          [Rust_log ''host_log'' 3 ''yotredash::alsa'' (replicate 1022 CHR ''x'')]\<rparr>) \<and>
   length (replicate 1022 CHR ''x'') = 1022"
proof -
  have r: "printf_render ''%s'' [Arg_str (replicate 2000 CHR ''x'')] =
      Some (replicate 2000 CHR ''x'')"
    by simp
  have l: "1022 < length (replicate 2000 CHR ''x'')"
    by simp
  have c: "rust_log (set_message_handler (Some ''host_log'') initial) = Some ''host_log''"
    by (simp add: set_message_handler_eq)
  have z: "NUL \<notin> set (take 1022 (replicate 2000 CHR ''x''))"
    by simp
  show ?thesis
    using r l c z
      alsa_long_rendering_truncated_to_1022 [of printf_render "''%s''"
        "[Arg_str (replicate 2000 CHR ''x'')]" "replicate 2000 CHR ''x''"
        "set_message_handler (Some ''host_log'') initial" "''host_log''" "''pcm.c''" 7 "''snd_pcm_open''" 2, OF r l c]
    by (simp add: c_string_id)
qed

text \<open>
  The claim as the specification words it (the first 1023 bytes) fails: a format of 2000
  plain bytes renders to itself, 2000 bytes, and the message forwarded is 1022 bytes
  long, so it is not the first 1023 bytes of the rendering.
\<close>

theorem alsa_long_rendering_not_1023_counterexample:
  "printf_render (replicate 2000 CHR ''x'') [] = Some (replicate 2000 CHR ''x'') \<and>
   1023 < length (replicate 2000 CHR ''x'') \<and>
   alsa_error_handler printf_render ''pcm.c'' 7 ''snd_pcm_open'' 2 (replicate 2000 CHR ''x'') []
       (set_message_handler (Some ''host_log'') initial) =
     Inr ((set_message_handler (Some ''host_log'') initial)
       \<lparr>trace := trace (set_message_handler (Some ''host_log'') initial) @
          [Rust_log ''host_log'' 3 ''yotredash::alsa'' (replicate 1022 CHR ''x'')]\<rparr>) \<and>
   replicate 1022 CHR ''x'' \<noteq> take 1023 (replicate 2000 CHR ''x'')"
proof -
  have r: "printf_render (replicate 2000 CHR ''x'') [] = Some (replicate 2000 CHR ''x'')"
    by (simp add: printf_render_plain)
  have n: "replicate 1022 CHR ''x'' \<noteq> take 1023 (replicate 2000 CHR ''x'')"
  proof
    assume "replicate 1022 CHR ''x'' = take 1023 (replicate 2000 CHR ''x'')"
    then have "length (replicate 1022 CHR ''x'') = length (take 1023 (replicate 2000 CHR ''x''))"
      by (rule arg_cong)
    then show False by simp
  qed
  show ?thesis
    using r n
    by (simp add: alsa_error_handler_Some [of printf_render "replicate 2000 CHR ''x''" "[]", OF r]
        call_rust_log_def set_message_handler_eq c_string_id)
qed

subsection \<open>Short messages\<close>

text \<open>
  Claim C2, as the code has it: whenever the rendering is at most 1022 bytes long and the
  callback is set, the sound-device handler forwards, with severity 3 and its tag, the
  whole rendering as the callback reads it from the array; a rendering without a null
  byte of its own arrives exact and complete.
\<close>

theorem alsa_short_rendering_complete:
  assumes "render fmt ap = Some r" and "length r \<le> 1022" and "rust_log s = Some cb"
  shows "alsa_error_handler render file line function err fmt ap s =
           Inr (s\<lparr>trace := trace s @ [Rust_log cb 3 ''yotredash::alsa'' (c_string r)]\<rparr>) \<and>
         (NUL \<notin> set r \<longrightarrow> c_string r = r)"
  using assms
  by (simp add: alsa_error_handler_Some call_rust_log_Some c_string_id)

text \<open>The theorem at the first end-to-end scenario of the specification.\<close>

theorem alsa_short_rendering_complete_witness:
  "printf_render ''failed: %s'' [Arg_str ''device busy''] = Some ''failed: device busy'' \<and>
   length ''failed: device busy'' \<le> 1022 \<and>
   rust_log (set_message_handler (Some ''host_log'') initial) = Some ''host_log'' \<and>
   NUL \<notin> set ''failed: device busy'' \<and>
   alsa_error_handler printf_render ''pcm.c'' 7 ''snd_pcm_open'' 2
       ''failed: %s'' [Arg_str ''device busy''] (set_message_handler (Some ''host_log'') initial) =
     Inr ((set_message_handler (Some ''host_log'') initial)
       \<lparr>trace := trace (set_message_handler (Some ''host_log'') initial) @
          [Rust_log ''host_log'' 3 ''yotredash::alsa'' ''failed: device busy'']\<rparr>)"
proof -
  have r: "printf_render ''failed: %s'' [Arg_str ''device busy''] = Some ''failed: device busy''"
    by simp
  have l: "length ''failed: device busy'' \<le> 1022"
    by simp
  have c: "rust_log (set_message_handler (Some ''host_log'') initial) = Some ''host_log''"
    by (simp add: set_message_handler_eq)
  have z: "NUL \<notin> set ''failed: device busy''"
    by simp
  show ?thesis
    using r l c z
      alsa_short_rendering_complete [of printf_render "''failed: %s''"
        "[Arg_str ''device busy'']" "''failed: device busy''"
        "set_message_handler (Some ''host_log'') initial" "''host_log''"
        "''pcm.c''" 7 "''snd_pcm_open''" 2, OF r l c]
    by (simp add: c_string_id)
qed

text \<open>
  The claim as the specification words it (complete up to 1023 bytes) fails at a
  rendering of exactly 1023 bytes: a format of 1023 plain bytes renders to itself, and
  the message forwarded is its first 1022 bytes, one byte short.
\<close>

theorem alsa_rendering_of_1023_counterexample:
  "printf_render (replicate 1023 CHR ''x'') [] = Some (replicate 1023 CHR ''x'') \<and>
   length (replicate 1023 CHR ''x'') \<le> 1023 \<and>
   alsa_error_handler printf_render ''pcm.c'' 7 ''snd_pcm_open'' 2 (replicate 1023 CHR ''x'') []
       (set_message_handler (Some ''host_log'') initial) =
     Inr ((set_message_handler (Some ''host_log'') initial)
       \<lparr>trace := trace (set_message_handler (Some ''host_log'') initial) @
          [Rust_log ''host_log'' 3 ''yotredash::alsa'' (replicate 1022 CHR ''x'')]\<rparr>) \<and>
   replicate 1022 CHR ''x'' \<noteq> replicate 1023 CHR ''x''"
proof -
  have r: "printf_render (replicate 1023 CHR ''x'') [] = Some (replicate 1023 CHR ''x'')"
    by (simp add: printf_render_plain)
  have n: "replicate 1022 CHR ''x'' \<noteq> replicate 1023 CHR ''x''"
  proof
    assume "replicate 1022 CHR ''x'' = replicate 1023 CHR ''x''"
    then have "length (replicate 1022 CHR ''x'') = length (replicate 1023 CHR ''x'')"
      by (rule arg_cong)
    then show False by simp
  qed
  show ?thesis
    using r n
    by (simp add: alsa_error_handler_Some [of printf_render "replicate 1023 CHR ''x''" "[]", OF r]
        call_rust_log_def set_message_handler_eq c_string_id)
qed

subsection \<open>Severities and source tags\<close>

text \<open>
  Claim C3: every handler forwards, and the severity and the source tag it forwards are
  fixed. With a callback stored, the sound-device handler, at every format that has a
  rendering, returns having called the callback once with severity 3 and
  \<^verbatim>\<open>yotredash::alsa\<close>; the audio server's info handler, at every message, returns
  having called it once with severity 2 and \<^verbatim>\<open>yotredash::jack\<close>; its error handler
  with severity 3 and \<^verbatim>\<open>yotredash::jack\<close>. And in any state, whenever one of the
  handlers returns, it has made exactly one call, to the stored callback, with its own
  pair.
\<close>

theorem adapters_fixed_severity_and_tag:
  "(rust_log s = Some cb \<and> render fmt ap = Some r \<longrightarrow>
      alsa_error_handler render file line function err fmt ap s =
        Inr (s\<lparr>trace := trace s @
          [Rust_log cb 3 ''yotredash::alsa'' (c_string (take 1022 r))]\<rparr>)) \<and>
   (rust_log s = Some cb \<longrightarrow>
      jack_info_handler msg2 s =
        Inr (s\<lparr>trace := trace s @ [Rust_log cb 2 ''yotredash::jack'' msg2]\<rparr>)) \<and>
   (rust_log s = Some cb \<longrightarrow>
      jack_error_handler msg3 s =
        Inr (s\<lparr>trace := trace s @ [Rust_log cb 3 ''yotredash::jack'' msg3]\<rparr>)) \<and>
   (alsa_error_handler render file line function err fmt ap s = Inr s1 \<longrightarrow>
      (\<exists>cb' m. rust_log s = Some cb' \<and>
         trace s1 = trace s @ [Rust_log cb' 3 ''yotredash::alsa'' m])) \<and>
   (jack_info_handler msg2 s = Inr s2 \<longrightarrow>
      (\<exists>cb' m. rust_log s = Some cb' \<and>
         trace s2 = trace s @ [Rust_log cb' 2 ''yotredash::jack'' m])) \<and>
   (jack_error_handler msg3 s = Inr s3 \<longrightarrow>
      (\<exists>cb' m. rust_log s = Some cb' \<and>
         trace s3 = trace s @ [Rust_log cb' 3 ''yotredash::jack'' m]))"
proof (intro conjI impI)
  assume "rust_log s = Some cb \<and> render fmt ap = Some r"
  then show "alsa_error_handler render file line function err fmt ap s =
      Inr (s\<lparr>trace := trace s @
        [Rust_log cb 3 ''yotredash::alsa'' (c_string (take 1022 r))]\<rparr>)"
    by (simp add: alsa_error_handler_Some call_rust_log_Some)
next
  assume "rust_log s = Some cb"
  then show "jack_info_handler msg2 s =
      Inr (s\<lparr>trace := trace s @ [Rust_log cb 2 ''yotredash::jack'' msg2]\<rparr>)"
    by (simp add: jack_info_handler_def call_rust_log_Some)
next
  assume "rust_log s = Some cb"
  then show "jack_error_handler msg3 s =
      Inr (s\<lparr>trace := trace s @ [Rust_log cb 3 ''yotredash::jack'' msg3]\<rparr>)"
    by (simp add: jack_error_handler_def call_rust_log_Some)
next
  assume "alsa_error_handler render file line function err fmt ap s = Inr s1"
  from alsa_error_handler_Inr [of render "file" line "function" err fmt ap s s1, OF this]
  show "\<exists>cb' m. rust_log s = Some cb' \<and>
      trace s1 = trace s @ [Rust_log cb' 3 ''yotredash::alsa'' m]"
    by auto
next
  assume "jack_info_handler msg2 s = Inr s2"
  then have "call_rust_log 2 ''yotredash::jack'' msg2 s = Inr s2"
    by (simp add: jack_info_handler_def)
  from call_rust_log_Inr [OF this]
  show "\<exists>cb' m. rust_log s = Some cb' \<and>
      trace s2 = trace s @ [Rust_log cb' 2 ''yotredash::jack'' m]"
    by auto
next
  assume "jack_error_handler msg3 s = Inr s3"
  then have "call_rust_log 3 ''yotredash::jack'' msg3 s = Inr s3"
    by (simp add: jack_error_handler_def)
  from call_rust_log_Inr [OF this]
  show "\<exists>cb' m. rust_log s = Some cb' \<and>
      trace s3 = trace s @ [Rust_log cb' 3 ''yotredash::jack'' m]"
    by auto
qed

text \<open>
  The three handlers after a registration, each at one message: the theorem gives the
  three calls, and then, of the three states returned, the one call each has added.
\<close>

theorem adapters_fixed_severity_and_tag_witness:
  "rust_log (set_message_handler (Some ''host_log'') initial) = Some ''host_log'' \<and>
   printf_render ''failed: %s'' [Arg_str ''device busy''] = Some ''failed: device busy'' \<and>
   alsa_error_handler printf_render ''pcm.c'' 7 ''snd_pcm_open'' 2
       ''failed: %s'' [Arg_str ''device busy''] (set_message_handler (Some ''host_log'') initial) =
     Inr ((set_message_handler (Some ''host_log'') initial)
       \<lparr>trace := trace (set_message_handler (Some ''host_log'') initial) @
          [Rust_log ''host_log'' 3 ''yotredash::alsa'' ''failed: device busy'']\<rparr>) \<and>
   (\<exists>cb m. rust_log (set_message_handler (Some ''host_log'') initial) = Some cb \<and>
      trace ((set_message_handler (Some ''host_log'') initial)
       \<lparr>trace := trace (set_message_handler (Some ''host_log'') initial) @
          [Rust_log ''host_log'' 3 ''yotredash::alsa'' ''failed: device busy'']\<rparr>) =
      trace (set_message_handler (Some ''host_log'') initial) @
        [Rust_log cb 3 ''yotredash::alsa'' m]) \<and>
   jack_info_handler ''client registered'' (set_message_handler (Some ''host_log'') initial) =
     Inr ((set_message_handler (Some ''host_log'') initial)
       \<lparr>trace := trace (set_message_handler (Some ''host_log'') initial) @
          [Rust_log ''host_log'' 2 ''yotredash::jack'' ''client registered'']\<rparr>) \<and>
   (\<exists>cb m. rust_log (set_message_handler (Some ''host_log'') initial) = Some cb \<and>
      trace ((set_message_handler (Some ''host_log'') initial)
       \<lparr>trace := trace (set_message_handler (Some ''host_log'') initial) @
          [Rust_log ''host_log'' 2 ''yotredash::jack'' ''client registered'']\<rparr>) =
      trace (set_message_handler (Some ''host_log'') initial) @
        [Rust_log cb 2 ''yotredash::jack'' m]) \<and>
   jack_error_handler ''zombified'' (set_message_handler (Some ''host_log'') initial) =
     Inr ((set_message_handler (Some ''host_log'') initial)
       \<lparr>trace := trace (set_message_handler (Some ''host_log'') initial) @
          [Rust_log ''host_log'' 3 ''yotredash::jack'' ''zombified'']\<rparr>) \<and>
   (\<exists>cb m. rust_log (set_message_handler (Some ''host_log'') initial) = Some cb \<and>
      trace ((set_message_handler (Some ''host_log'') initial)
       \<lparr>trace := trace (set_message_handler (Some ''host_log'') initial) @
          [Rust_log ''host_log'' 3 ''yotredash::jack'' ''zombified'']\<rparr>) =
      trace (set_message_handler (Some ''host_log'') initial) @
        [Rust_log cb 3 ''yotredash::jack'' m])"
proof -
  let ?s = "set_message_handler (Some ''host_log'') initial"
  let ?s1 = "?s\<lparr>trace := trace ?s @
    [Rust_log ''host_log'' 3 ''yotredash::alsa'' ''failed: device busy'']\<rparr>"
  let ?s2 = "?s\<lparr>trace := trace ?s @
    [Rust_log ''host_log'' 2 ''yotredash::jack'' ''client registered'']\<rparr>"
  let ?s3 = "?s\<lparr>trace := trace ?s @
    [Rust_log ''host_log'' 3 ''yotredash::jack'' ''zombified'']\<rparr>"
  have c: "rust_log ?s = Some ''host_log''"
    by (simp add: set_message_handler_eq)
  have r: "printf_render ''failed: %s'' [Arg_str ''device busy''] = Some ''failed: device busy''"
    by simp
  have z: "c_string (take 1022 ''failed: device busy'') = ''failed: device busy''"
    by (simp add: c_string_id)
  note t = adapters_fixed_severity_and_tag [of ?s "''host_log''" printf_render
      "''failed: %s''" "[Arg_str ''device busy'']" "''failed: device busy''"
      "''pcm.c''" 7 "''snd_pcm_open''" 2 "''client registered''" "''zombified''" ?s1 ?s2 ?s3]
  from t c r have "alsa_error_handler printf_render ''pcm.c'' 7 ''snd_pcm_open'' 2
      ''failed: %s'' [Arg_str ''device busy''] ?s =
    Inr (?s\<lparr>trace := trace ?s @ [Rust_log ''host_log'' 3 ''yotredash::alsa''
      (c_string (take 1022 ''failed: device busy''))]\<rparr>)"
    by blast
  with z have a: "alsa_error_handler printf_render ''pcm.c'' 7 ''snd_pcm_open'' 2
      ''failed: %s'' [Arg_str ''device busy''] ?s = Inr ?s1"
    by (simp only:)
  from t c have i: "jack_info_handler ''client registered'' ?s = Inr ?s2"
    by blast
  from t c have e: "jack_error_handler ''zombified'' ?s = Inr ?s3"
    by blast
  from t a have ta: "\<exists>cb m. rust_log ?s = Some cb \<and>
      trace ?s1 = trace ?s @ [Rust_log cb 3 ''yotredash::alsa'' m]"
    by blast
  from t i have ti: "\<exists>cb m. rust_log ?s = Some cb \<and>
      trace ?s2 = trace ?s @ [Rust_log cb 2 ''yotredash::jack'' m]"
    by blast
  from t e have te: "\<exists>cb m. rust_log ?s = Some cb \<and>
      trace ?s3 = trace ?s @ [Rust_log cb 3 ''yotredash::jack'' m]"
    by blast
  from c r a ta i ti e te show ?thesis
    by blast
qed

subsection \<open>Registration\<close>

text \<open>
  Claim C4: for every callback, a null pointer too, \<^verbatim>\<open>set_message_handler\<close> leaves
  the callback in the global \<^verbatim>\<open>rust_log\<close> and the three handlers of this file in
  the three slots (the sound library's error slot, the audio server's info slot and its
  error slot), and what it does is, in this order: the store of the callback, then the
  three installations. Its result is the new state alone: the function is \<^verbatim>\<open>void\<close>.
\<close>

theorem set_message_handler_stores_then_installs:
  "rust_log (set_message_handler callback s) = callback \<and>
   snd_lib_error (set_message_handler callback s) = Some Alsa_error_handler \<and>
   jack_info (set_message_handler callback s) = Some Jack_info_handler \<and>
   jack_error (set_message_handler callback s) = Some Jack_error_handler \<and>
   trace (set_message_handler callback s) =
     trace s @ [Store_rust_log callback,
       Snd_lib_error_set_handler (Some Alsa_error_handler),
       Jack_set_info_function (Some Jack_info_handler),
       Jack_set_error_function (Some Jack_error_handler)]"
  by (simp add: set_message_handler_def store_rust_log_def snd_lib_error_set_handler_def
      jack_set_info_function_def jack_set_error_function_def)

text \<open>
  Claim C5: registering \<open>c1\<close> and then \<open>c2\<close> leaves the callback and the three slots as
  registering \<open>c2\<close> alone does: the callback is \<open>c2\<close>, the slots hold the same three
  handlers, and the second registration does the same four things as a first one.
\<close>

theorem set_message_handler_last_wins:
  "registration (set_message_handler c2 (set_message_handler c1 s)) =
     registration (set_message_handler c2 s) \<and>
   registration (set_message_handler c2 (set_message_handler c1 s)) =
     (c2, Some Alsa_error_handler, Some Jack_info_handler, Some Jack_error_handler) \<and>
   drop (length (trace (set_message_handler c1 s)))
       (trace (set_message_handler c2 (set_message_handler c1 s))) =
     drop (length (trace s)) (trace (set_message_handler c2 s))"
  by (simp add: set_message_handler_eq registration_def)

subsection \<open>The pass-through handlers\<close>

text \<open>
  Claim C6: with a callback set, each of the two handlers of the audio server calls it
  once with the very message it was given, and changes nothing else.
\<close>

theorem jack_handlers_pass_message_through:
  assumes "rust_log s = Some cb"
  shows "jack_info_handler msg s =
           Inr (s\<lparr>trace := trace s @ [Rust_log cb 2 ''yotredash::jack'' msg]\<rparr>) \<and>
         jack_error_handler msg s =
           Inr (s\<lparr>trace := trace s @ [Rust_log cb 3 ''yotredash::jack'' msg]\<rparr>)"
  using assms
  by (simp add: jack_info_handler_def jack_error_handler_def call_rust_log_Some)

text \<open>The theorem at the second end-to-end scenario of the specification.\<close>

theorem jack_handlers_pass_message_through_witness:
  "rust_log (set_message_handler (Some ''host_log'') initial) = Some ''host_log'' \<and>
   jack_info_handler ''client registered'' (set_message_handler (Some ''host_log'') initial) =
     Inr ((set_message_handler (Some ''host_log'') initial)
       \<lparr>trace := trace (set_message_handler (Some ''host_log'') initial) @
          [Rust_log ''host_log'' 2 ''yotredash::jack'' ''client registered'']\<rparr>) \<and>
   jack_error_handler ''client registered'' (set_message_handler (Some ''host_log'') initial) =
     Inr ((set_message_handler (Some ''host_log'') initial)
       \<lparr>trace := trace (set_message_handler (Some ''host_log'') initial) @
          [Rust_log ''host_log'' 3 ''yotredash::jack'' ''client registered'']\<rparr>)"
proof -
  have c: "rust_log (set_message_handler (Some ''host_log'') initial) = Some ''host_log''"
    by (simp add: set_message_handler_eq)
  from jack_handlers_pass_message_through [OF c, of "''client registered''"] c
  show ?thesis by blast
qed

subsection \<open>The unused parameters\<close>

text \<open>
  Claim C7: two calls of the sound-device handler with the same format and arguments, in
  the same state, have the same outcome whatever their file, line, function and error
  code are.
\<close>

theorem alsa_ignores_file_line_function_err:
  "alsa_error_handler render file line function err fmt ap s =
   alsa_error_handler render file' line' function' err' fmt ap s"
  by (simp add: alsa_error_handler_def)

subsection \<open>No call through a null pointer after a registration\<close>

lemma step_keeps_callback:
  assumes "rust_log s \<noteq> None" and "passes_callback c"
  shows "step render c s \<noteq> Inl Null_call"
    and "step render c s = Inr s' \<Longrightarrow> rust_log s' \<noteq> None"
proof -
  from assms(1) obtain cb where cb: "rust_log s = Some cb" by auto
  show "step render c s \<noteq> Inl Null_call"
  proof (cases c)
    case (Alsa_error fl ln fn er fm va)
    with cb alsa_error_handler_faults [of render fl ln fn er fm va s Null_call]
    show ?thesis by auto
  qed (simp_all add: jack_info_handler_def jack_error_handler_def call_rust_log_Some [OF cb])
  show "step render c s = Inr s' \<Longrightarrow> rust_log s' \<noteq> None"
  proof (cases c)
    case (Set_message_handler callback)
    assume "step render c s = Inr s'"
    with Set_message_handler assms(2) show ?thesis
      by (cases callback) (auto simp: set_message_handler_eq)
  next
    case (Alsa_error fl ln fn er fm va)
    assume "step render c s = Inr s'"
    with Alsa_error have "alsa_error_handler render fl ln fn er fm va s = Inr s'"
      by simp
    from alsa_error_handler_Inr [of render fl ln fn er fm va s s', OF this] cb show ?thesis
      by auto
  next
    case (Jack_info msg)
    assume "step render c s = Inr s'"
    with Jack_info cb show ?thesis
      by (auto simp: jack_info_handler_def call_rust_log_Some)
  next
    case (Jack_error msg)
    assume "step render c s = Inr s'"
    with Jack_error cb show ?thesis
      by (auto simp: jack_error_handler_def call_rust_log_Some)
  qed
qed

lemma run_keeps_callback:
  assumes "list_all passes_callback cs" and "rust_log s \<noteq> None"
  shows "run render cs s \<noteq> Inl Null_call \<and>
    (\<forall>s'. run render cs s = Inr s' \<longrightarrow> rust_log s' \<noteq> None)"
  using assms
proof (induction cs arbitrary: s)
  case Nil
  then show ?case by simp
next
  case (Cons c cs)
  then have c: "passes_callback c" and cs: "list_all passes_callback cs"
    by simp_all
  show ?case
  proof (cases "step render c s")
    case (Inl f)
    with step_keeps_callback(1) [OF Cons.prems(2) c, of render] show ?thesis
      by auto
  next
    case (Inr s1)
    from step_keeps_callback(2) [OF Cons.prems(2) c Inr] have "rust_log s1 \<noteq> None" .
    from Cons.IH [OF cs this] Inr show ?thesis by simp
  qed
qed

text \<open>
  Claim C8, as the code has it. The code never tests \<^verbatim>\<open>rust_log\<close>, and
  \<^verbatim>\<open>set_message_handler\<close> stores whatever pointer it is given. In every run that
  starts with a registration of a callback that is not null, and in which no later
  registration passes the null pointer, no handler calls through a null pointer, and
  the global still holds a callback when the run returns.
\<close>

theorem registered_run_never_calls_null:
  assumes "list_all passes_callback cs"
  shows "run render (Set_message_handler (Some cb) # cs) s \<noteq> Inl Null_call \<and>
         (\<forall>s'. run render (Set_message_handler (Some cb) # cs) s = Inr s' \<longrightarrow>
            rust_log s' \<noteq> None)"
proof -
  have "rust_log (set_message_handler (Some cb) s) \<noteq> None"
    by (simp add: set_message_handler_eq)
  from run_keeps_callback [OF assms this, of render] show ?thesis
    by simp
qed

text \<open>
  The theorem at a run from the initial state: a registration, two handlers, a second
  registration, a third handler.
\<close>

theorem registered_run_never_calls_null_witness:
  "list_all passes_callback
     [Jack_info ''client registered'',
      Alsa_error ''pcm.c'' 7 ''snd_pcm_open'' 2 ''failed: %s'' [Arg_str ''device busy''],
      Set_message_handler (Some ''other_log''),
      Jack_error ''zombified''] \<and>
   run printf_render
     [Set_message_handler (Some ''host_log''),
      Jack_info ''client registered'',
      Alsa_error ''pcm.c'' 7 ''snd_pcm_open'' 2 ''failed: %s'' [Arg_str ''device busy''],
      Set_message_handler (Some ''other_log''),
      Jack_error ''zombified''] initial \<noteq> Inl Null_call"
proof -
  have h: "list_all passes_callback
     [Jack_info ''client registered'',
      Alsa_error ''pcm.c'' 7 ''snd_pcm_open'' 2 ''failed: %s'' [Arg_str ''device busy''],
      Set_message_handler (Some ''other_log''),
      Jack_error ''zombified'' :: (string, va_arg list) call]"
    by simp
  from registered_run_never_calls_null [OF h, of printf_render "''host_log''" initial] h
  show ?thesis by blast
qed

text \<open>
  The claim as the specification words it (it is enough that
  \<^verbatim>\<open>set_message_handler\<close> was called) fails when the pointer registered is null:
  the info handler of the audio server then calls through the null pointer.
\<close>

theorem null_registration_counterexample:
  "run printf_render [Set_message_handler None, Jack_info ''client registered'']
     (initial :: string bridge) = Inl Null_call"
  by (simp add: set_message_handler_eq jack_info_handler_def call_rust_log_def)

subsection \<open>The array is never overrun\<close>

text \<open>
  Claim C9: for every format and argument list, the write into the array of 1024 cells
  never overflows; when \<^verbatim>\<open>vsnprintf\<close> returns, at most 1023 cells are written, the
  terminator among them, the last cell is untouched, and the array reads as a terminated
  string of at most 1022 bytes. The handler never fails on the array, and the message of
  the call it makes is at most 1022 bytes long.
\<close>

theorem alsa_write_stays_in_bounds:
  "alsa_msg render fmt ap \<noteq> Inl Buffer_overflow \<and>
   (\<forall>msg. alsa_msg render fmt ap = Inr msg \<longrightarrow>
      length msg = 1024 \<and> length (filter (\<lambda>c. c \<noteq> None) msg) \<le> 1023 \<and> last msg = None \<and>
      (\<exists>m. c_str msg = Inr m \<and> length m \<le> 1022)) \<and>
   alsa_error_handler render file line function err fmt ap s \<noteq> Inl Buffer_overflow \<and>
   alsa_error_handler render file line function err fmt ap s \<noteq> Inl Bad_read \<and>
   (\<forall>s'. alsa_error_handler render file line function err fmt ap s = Inr s' \<longrightarrow>
      (\<exists>cb m. trace s' = trace s @ [Rust_log cb 3 ''yotredash::alsa'' m] \<and>
         length m \<le> 1022))"
proof (cases "render fmt ap")
  case None
  then show ?thesis
    by (simp add: alsa_msg_None alsa_error_handler_None)
next
  case (Some r)
  let ?k = "1023 - min (length r) 1022"
  let ?msg = "map Some (take 1022 r) @ Some NUL # replicate ?k None"
  have m: "alsa_msg render fmt ap = Inr ?msg"
    using Some by (simp add: alsa_msg_Some)
  have l: "length ?msg = 1024"
    by (simp add: min_def)
  have w: "length (filter (\<lambda>c. c \<noteq> None) ?msg) \<le> 1023"
    unfolding written_cells by simp
  have k: "0 < ?k"
    by (simp add: min_def)
  then have e: "last ?msg = None"
    by simp
  have c: "c_str ?msg = Inr (c_string (take 1022 r))"
    by (rule c_str_terminated)
  have n: "length (c_string (take 1022 r)) \<le> 1022"
    using length_c_string_le [of "take 1022 r"] by simp
  have f: "alsa_error_handler render file line function err fmt ap s \<noteq> Inl Buffer_overflow"
    "alsa_error_handler render file line function err fmt ap s \<noteq> Inl Bad_read"
    using alsa_error_handler_faults [of render "file" line "function" err fmt ap s] by auto
  have t: "\<exists>cb m. trace s' = trace s @ [Rust_log cb 3 ''yotredash::alsa'' m] \<and> length m \<le> 1022"
    if "alsa_error_handler render file line function err fmt ap s = Inr s'" for s'
  proof -
    from alsa_error_handler_Inr [of render "file" line "function" err fmt ap s s', OF that]
    obtain cb r' where
      "render fmt ap = Some r'" and
      "s' = s\<lparr>trace := trace s @
        [Rust_log cb 3 ''yotredash::alsa'' (c_string (take 1022 r'))]\<rparr>"
      by blast
    with Some n show ?thesis by auto
  qed
  from m l w e c n f t show ?thesis
    by (simp only: sum.inject sum.distinct simp_thms) blast
qed

text \<open>
  The theorem at the first end-to-end scenario: 19 bytes and the terminator are written,
  1004 cells stay untouched.
\<close>

theorem alsa_write_stays_in_bounds_witness:
  "alsa_msg printf_render ''failed: %s'' [Arg_str ''device busy''] =
     Inr (map Some ''failed: device busy'' @ Some NUL # replicate 1004 None) \<and>
   length (map Some ''failed: device busy'' @ Some NUL # replicate 1004 None) = 1024 \<and>
   length (filter (\<lambda>c. c \<noteq> None)
     (map Some ''failed: device busy'' @ Some NUL # replicate 1004 None)) \<le> 1023 \<and>
   last (map Some ''failed: device busy'' @ Some NUL # replicate 1004 None) = None \<and>
   (\<exists>m. c_str (map Some ''failed: device busy'' @ Some NUL # replicate 1004 None) = Inr m \<and>
      length m \<le> 1022) \<and>
   alsa_error_handler printf_render ''pcm.c'' 7 ''snd_pcm_open'' 2
       ''failed: %s'' [Arg_str ''device busy''] (set_message_handler (Some ''host_log'') initial) =
     Inr ((set_message_handler (Some ''host_log'') initial)
       \<lparr>trace := trace (set_message_handler (Some ''host_log'') initial) @
          [Rust_log ''host_log'' 3 ''yotredash::alsa'' ''failed: device busy'']\<rparr>) \<and>
   (\<exists>cb m. trace ((set_message_handler (Some ''host_log'') initial)
       \<lparr>trace := trace (set_message_handler (Some ''host_log'') initial) @
          [Rust_log ''host_log'' 3 ''yotredash::alsa'' ''failed: device busy'']\<rparr>) =
      trace (set_message_handler (Some ''host_log'') initial) @
        [Rust_log cb 3 ''yotredash::alsa'' m] \<and> length m \<le> 1022)"
proof -
  let ?s = "set_message_handler (Some ''host_log'') initial"
  let ?msg = "map Some ''failed: device busy'' @ Some NUL # replicate 1004 None"
  have m: "alsa_msg printf_render ''failed: %s'' [Arg_str ''device busy''] = Inr ?msg"
    by (simp add: alsa_msg_Some
        [of printf_render "''failed: %s''" "[Arg_str ''device busy'']", OF scenario_rendering])
  have h: "alsa_error_handler printf_render ''pcm.c'' 7 ''snd_pcm_open'' 2
       ''failed: %s'' [Arg_str ''device busy''] ?s =
     Inr (?s\<lparr>trace := trace ?s @
          [Rust_log ''host_log'' 3 ''yotredash::alsa'' ''failed: device busy'']\<rparr>)"
    by (rule scenario_alsa)
  note t = alsa_write_stays_in_bounds [of printf_render "''failed: %s''"
      "[Arg_str ''device busy'']" "''pcm.c''" 7 "''snd_pcm_open''" 2 ?s]
  from t m have a: "length ?msg = 1024 \<and> length (filter (\<lambda>c. c \<noteq> None) ?msg) \<le> 1023 \<and>
      last ?msg = None \<and> (\<exists>m. c_str ?msg = Inr m \<and> length m \<le> 1022)"
    by blast
  from t h have b: "\<exists>cb m. trace (?s\<lparr>trace := trace ?s @
          [Rust_log ''host_log'' 3 ''yotredash::alsa'' ''failed: device busy'']\<rparr>) =
      trace ?s @ [Rust_log cb 3 ''yotredash::alsa'' m] \<and> length m \<le> 1022"
    by blast
  from m h a b show ?thesis
    by blast
qed

subsection \<open>Everything the callback ever receives\<close>

lemma step_forwards_ok:
  assumes "step render c s = Inr s'"
  shows "\<exists>new. trace s' = trace s @ new \<and> list_all forwarded_ok new"
proof (cases c)
  case (Set_message_handler callback)
  with assms show ?thesis
    by (auto simp: set_message_handler_eq forwarded_ok_def)
next
  case (Alsa_error fl ln fn er fm va)
  with assms have "alsa_error_handler render fl ln fn er fm va s = Inr s'"
    by simp
  from alsa_error_handler_Inr [of render fl ln fn er fm va s s', OF this] show ?thesis
    by (auto simp: forwarded_ok_def)
next
  case (Jack_info msg)
  with assms show ?thesis
    by (auto simp: jack_info_handler_def forwarded_ok_def dest!: call_rust_log_Inr)
next
  case (Jack_error msg)
  with assms show ?thesis
    by (auto simp: jack_error_handler_def forwarded_ok_def dest!: call_rust_log_Inr)
qed

text \<open>
  Claim C10: over a whole run of registrations and handler calls, from any state, every
  call of the callback that the run adds to the history carries severity 2 or 3 and the
  tag \<^verbatim>\<open>yotredash::alsa\<close> or \<^verbatim>\<open>yotredash::jack\<close>. A run that ends in a fault is
  covered up to the fault, since its calls before the fault are a run that returns.
\<close>

theorem every_forwarded_triple_is_fixed:
  assumes "run render cs s = Inr s'"
  shows "\<exists>new. trace s' = trace s @ new \<and> list_all forwarded_ok new"
  using assms
proof (induction cs arbitrary: s)
  case Nil
  then show ?case by simp
next
  case (Cons c cs)
  then obtain s1 where s1: "step render c s = Inr s1" and r: "run render cs s1 = Inr s'"
    by (auto split: sum.splits)
  from step_forwards_ok [OF s1] obtain n1 where
    n1: "trace s1 = trace s @ n1" "list_all forwarded_ok n1" by blast
  from Cons.IH [OF r] obtain n2 where
    n2: "trace s' = trace s1 @ n2" "list_all forwarded_ok n2" by blast
  from n1 n2 have "trace s' = trace s @ (n1 @ n2) \<and> list_all forwarded_ok (n1 @ n2)"
    by simp
  then show ?case by blast
qed

text \<open>The theorem at a run of the registration and the three handlers from the initial state.\<close>

theorem every_forwarded_triple_is_fixed_witness:
  "run printf_render
     [Set_message_handler (Some ''host_log''),
      Alsa_error ''pcm.c'' 7 ''snd_pcm_open'' 2 ''failed: %s'' [Arg_str ''device busy''],
      Jack_info ''client registered'',
      Jack_error ''zombified'']
     initial =
   Inr \<lparr>rust_log = Some ''host_log'', snd_lib_error = Some Alsa_error_handler,
      jack_info = Some Jack_info_handler, jack_error = Some Jack_error_handler,
      trace = [Store_rust_log (Some ''host_log''),
        Snd_lib_error_set_handler (Some Alsa_error_handler),
        Jack_set_info_function (Some Jack_info_handler),
        Jack_set_error_function (Some Jack_error_handler),
        Rust_log ''host_log'' 3 ''yotredash::alsa'' ''failed: device busy'',
        Rust_log ''host_log'' 2 ''yotredash::jack'' ''client registered'',
        Rust_log ''host_log'' 3 ''yotredash::jack'' ''zombified'']\<rparr> \<and>
   (\<exists>new. [Store_rust_log (Some ''host_log''),
        Snd_lib_error_set_handler (Some Alsa_error_handler),
        Jack_set_info_function (Some Jack_info_handler),
        Jack_set_error_function (Some Jack_error_handler),
        Rust_log ''host_log'' 3 ''yotredash::alsa'' ''failed: device busy'',
        Rust_log ''host_log'' 2 ''yotredash::jack'' ''client registered'',
        Rust_log ''host_log'' 3 ''yotredash::jack'' ''zombified''] = [] @ new \<and>
      list_all forwarded_ok new)"
proof -
  have h: "run printf_render
     [Set_message_handler (Some ''host_log''),
      Alsa_error ''pcm.c'' 7 ''snd_pcm_open'' 2 ''failed: %s'' [Arg_str ''device busy''],
      Jack_info ''client registered'',
      Jack_error ''zombified'']
     initial =
   Inr \<lparr>rust_log = Some ''host_log'', snd_lib_error = Some Alsa_error_handler,
      jack_info = Some Jack_info_handler, jack_error = Some Jack_error_handler,
      trace = [Store_rust_log (Some ''host_log''),
        Snd_lib_error_set_handler (Some Alsa_error_handler),
        Jack_set_info_function (Some Jack_info_handler),
        Jack_set_error_function (Some Jack_error_handler),
        Rust_log ''host_log'' 3 ''yotredash::alsa'' ''failed: device busy'',
        Rust_log ''host_log'' 2 ''yotredash::jack'' ''client registered'',
        Rust_log ''host_log'' 3 ''yotredash::jack'' ''zombified'']\<rparr>"
    by (simp add: set_message_handler_eq initial_def jack_info_handler_def
        jack_error_handler_def call_rust_log_def c_string_id
        alsa_error_handler_Some
          [of printf_render "''failed: %s''" "[Arg_str ''device busy'']", OF scenario_rendering])
  from every_forwarded_triple_is_fixed [OF h] h show ?thesis
    by (simp add: initial_def)
qed

end
